theory Spec2Isabelle
  imports Complex_Main "HOL-Library.Word"
begin

section \<open>JavaScript values\<close>

text \<open>
  The component of \<^verbatim>\<open>src/Frontend/cityfacts-frontend/src/App.jsx\<close> exists in two
  versions in that file: one that talks to the backend with \<^verbatim>\<open>fetch\<close> (a single GET),
  and one that uses \<^verbatim>\<open>axios\<close> (GET, then a generation endpoint and a POST). Both keep
  the same four pieces of state and return the same JSX.

  A JavaScript string is a sequence of UTF-16 code units. String literals of the source are
  ASCII and are written with \<open>ascii\<close>.
\<close>

type_synonym code_unit = "16 word"
type_synonym jsstring = "code_unit list"

definition ascii :: "string \<Rightarrow> jsstring" where
  "ascii cs = map (\<lambda>c. of_nat (of_char c)) cs"

text \<open>
  The values that can reach the component: what \<^verbatim>\<open>JSON.parse\<close> produces, and
  \<^verbatim>\<open>undefined\<close> for an absent property. An object is the list of its own properties.
\<close>

datatype jsval =
    JUndefined
  | JNull
  | JBool bool
  | JNum rat
  | JStr jsstring
  | JArr "jsval list"
  | JObj "(jsstring \<times> jsval) list"

text \<open>\<^verbatim>\<open>ToBoolean\<close>: what \<^verbatim>\<open>!x\<close>, \<^verbatim>\<open>x ? a : b\<close>, \<^verbatim>\<open>x && y\<close> and \<^verbatim>\<open>x || y\<close> test.\<close>

fun truthy :: "jsval \<Rightarrow> bool" where
  "truthy JUndefined = False"
| "truthy JNull = False"
| "truthy (JBool b) = b"
| "truthy (JNum n) = (n \<noteq> 0)"
| "truthy (JStr s) = (s \<noteq> [])"
| "truthy (JArr vs) = True"
| "truthy (JObj fs) = True"

definition js_or :: "jsval \<Rightarrow> jsval \<Rightarrow> jsval" where
  "js_or a b = (if truthy a then a else b)"

text \<open>
  What the \<^verbatim>\<open>try\<close> block can throw: the \<^verbatim>\<open>TypeError\<close> of a failed \<^verbatim>\<open>fetch\<close> or of
  a property read on \<^verbatim>\<open>null\<close>, the \<^verbatim>\<open>SyntaxError\<close> of \<^verbatim>\<open>response.json()\<close>, and the
  error of a rejected axios call, which carries \<^verbatim>\<open>response.data\<close> when the server answered.
  A render can throw a \<^verbatim>\<open>TypeError\<close> as well, and React's error for a child that it
  cannot render.
\<close>

datatype js_error =
    TypeError
  | SyntaxError
  | AxiosError "jsval option"
  | InvalidChildError

text \<open>
  The property reads of the source, \<^verbatim>\<open>.facts\<close> and \<^verbatim>\<open>.detail\<close>: a read on
  \<^verbatim>\<open>null\<close> or \<^verbatim>\<open>undefined\<close> throws, an object gives its property or \<^verbatim>\<open>undefined\<close>,
  and every other value has no property of either name.
\<close>

fun get_prop :: "jsval \<Rightarrow> jsstring \<Rightarrow> js_error + jsval" where
  "get_prop JUndefined k = Inl TypeError"
| "get_prop JNull k = Inl TypeError"
| "get_prop (JObj fs) k = Inr (case map_of fs k of None \<Rightarrow> JUndefined | Some v \<Rightarrow> v)"
| "get_prop v k = Inr JUndefined"

text \<open>Optional chaining \<^verbatim>\<open>v?.k\<close>: \<^verbatim>\<open>undefined\<close> where the plain read would throw.\<close>

definition opt_prop :: "jsval \<Rightarrow> jsstring \<Rightarrow> jsval" where
  "opt_prop v k = (case get_prop v k of Inl e \<Rightarrow> JUndefined | Inr x \<Rightarrow> x)"

text \<open>\<^verbatim>\<open>err.response?.data?.detail\<close>\<close>

fun err_detail :: "js_error \<Rightarrow> jsval" where
  "err_detail (AxiosError (Some d)) = opt_prop d (ascii ''detail'')"
| "err_detail e = JUndefined"

subsection \<open>Strings: trim and split\<close>

text \<open>
  \<^verbatim>\<open>String.prototype.trim\<close> strips white space and line terminators from both ends:
  TAB, LF, VT, FF, CR, SP, NBSP, U+1680, U+2000 to U+200A, LS, PS, U+202F, U+205F, U+3000
  and U+FEFF.
\<close>

definition js_ws :: "code_unit \<Rightarrow> bool" where
  "js_ws c \<longleftrightarrow>
     (0x09 \<le> c \<and> c \<le> 0x0D) \<or> c = 0x20 \<or> c = 0xA0 \<or> c = 0x1680 \<or>
     (0x2000 \<le> c \<and> c \<le> 0x200A) \<or> c = 0x2028 \<or> c = 0x2029 \<or> c = 0x202F \<or>
     c = 0x205F \<or> c = 0x3000 \<or> c = 0xFEFF"

definition js_trim :: "jsstring \<Rightarrow> jsstring" where
  "js_trim s = rev (dropWhile js_ws (rev (dropWhile js_ws s)))"

text \<open>\<^verbatim>\<open>s.split(sep)\<close> for a separator of one code unit.\<close>

fun split_on :: "'a \<Rightarrow> 'a list \<Rightarrow> 'a list list" where
  "split_on sep [] = [[]]"
| "split_on sep (c # cs) =
     (if c = sep then [] # split_on sep cs
      else (case split_on sep cs of
              [] \<Rightarrow> [[c]]
            | l # ls \<Rightarrow> (c # l) # ls))"

definition newline :: code_unit where
  "newline = 0x0A"

text \<open>The inverse, \<^verbatim>\<open>lines.join(sep)\<close>, states what a split is.\<close>

fun join_with :: "'a \<Rightarrow> 'a list list \<Rightarrow> 'a list" where
  "join_with sep [] = []"
| "join_with sep [l] = l"
| "join_with sep (l # ls) = l @ sep # join_with sep ls"

section \<open>Component state\<close>

text \<open>The four \<^verbatim>\<open>useState\<close> cells, with their initial values.\<close>

record app_state =
  cityName :: jsstring
  cityFacts :: jsval
  isLoading :: bool
  error :: jsval

definition initial_state :: app_state where
  "initial_state = \<lparr>cityName = [], cityFacts = JStr [], isLoading = False, error = JStr []\<rparr>"

section \<open>The backend as seen by the component\<close>

datatype http_method = GET | POST

record request =
  meth :: http_method
  url :: jsstring
  headers :: "(jsstring \<times> jsstring) list"
  payload :: "jsval option"

text \<open>
  A body either parses as JSON or it does not. A request is answered with a status and a
  body, fails at the network, or never settles (no timeout is set anywhere).
\<close>

datatype http_body = Json jsval | NotJson jsstring

datatype http_reply = Hung | NetworkFailure | Reply nat http_body

type_synonym backend = "request \<Rightarrow> http_reply"

datatype 'a promise = Pending | Rejected js_error | Resolved 'a

text \<open>
  \<^verbatim>\<open>fetch\<close> resolves for every status and rejects with a \<^verbatim>\<open>TypeError\<close> when the
  network fails; \<^verbatim>\<open>response.ok\<close> is true for the statuses 200 to 299, and
  \<^verbatim>\<open>response.json()\<close> rejects with a \<^verbatim>\<open>SyntaxError\<close> on a body that is not JSON.
\<close>

definition fetch :: "backend \<Rightarrow> request \<Rightarrow> (nat \<times> http_body) promise" where
  "fetch env req =
     (case env req of
        Hung \<Rightarrow> Pending
      | NetworkFailure \<Rightarrow> Rejected TypeError
      | Reply st b \<Rightarrow> Resolved (st, b))"

definition response_ok :: "nat \<Rightarrow> bool" where
  "response_ok st \<longleftrightarrow> 200 \<le> st \<and> st \<le> 299"

definition response_json :: "http_body \<Rightarrow> js_error + jsval" where
  "response_json b = (case b of Json v \<Rightarrow> Inr v | NotJson t \<Rightarrow> Inl SyntaxError)"

text \<open>
  axios with its defaults resolves with \<^verbatim>\<open>response.data\<close> for the statuses 200 to 299
  and rejects for every other status with an error that carries the response; a network
  failure rejects with an error without \<^verbatim>\<open>response\<close>. The data is the parsed body, or the
  body's text when it does not parse.
\<close>

definition axios_data :: "http_body \<Rightarrow> jsval" where
  "axios_data b = (case b of Json v \<Rightarrow> v | NotJson t \<Rightarrow> JStr t)"

definition axios :: "backend \<Rightarrow> request \<Rightarrow> jsval promise" where
  "axios env req =
     (case env req of
        Hung \<Rightarrow> Pending
      | NetworkFailure \<Rightarrow> Rejected (AxiosError None)
      | Reply st b \<Rightarrow>
          if response_ok st then Resolved (axios_data b)
          else Rejected (AxiosError (Some (axios_data b))))"

section \<open>The submit handler\<close>

text \<open>
  A run of the handler is the sequence of what it does, in order: the state setters it
  calls and the requests it issues.
\<close>

datatype event =
    SetCityName jsstring
  | SetCityFacts jsval
  | SetIsLoading bool
  | SetError jsval
  | Call request

fun apply_event :: "event \<Rightarrow> app_state \<Rightarrow> app_state" where
  "apply_event (SetCityName v) s = s\<lparr>cityName := v\<rparr>"
| "apply_event (SetCityFacts v) s = s\<lparr>cityFacts := v\<rparr>"
| "apply_event (SetIsLoading b) s = s\<lparr>isLoading := b\<rparr>"
| "apply_event (SetError v) s = s\<lparr>error := v\<rparr>"
| "apply_event (Call r) s = s"

fun run :: "event list \<Rightarrow> app_state \<Rightarrow> app_state" where
  "run [] s = s"
| "run (e # es) s = run es (apply_event e s)"

text \<open>How a \<^verbatim>\<open>try\<close> block ends: normally, by a throw, or suspended at an await for ever.\<close>

datatype completion = Returned | Threw js_error | Suspended

text \<open>
  \<^verbatim>\<open>catch (err) { setError(err.response?.data?.detail || "Failed to fetch city facts") }
  finally { setIsLoading(false) }\<close>, the same in both versions. The boolean tells whether
  the handler returned.
\<close>

definition catch_finally :: "event list \<times> completion \<Rightarrow> event list \<times> bool" where
  "catch_finally r =
     (case r of
        (evs, Returned) \<Rightarrow> (evs @ [SetIsLoading False], True)
      | (evs, Threw err) \<Rightarrow>
          (evs @ [SetError (js_or (err_detail err) (JStr (ascii ''Failed to fetch city facts''))),
                  SetIsLoading False], True)
      | (evs, Suspended) \<Rightarrow> (evs, False))"

subsection \<open>The fetch version\<close>

definition city_request_fetch :: "jsstring \<Rightarrow> request" where
  "city_request_fetch name =
     \<lparr>meth = GET, url = ascii ''http://localhost:4050/city/'' @ name,
      headers = [(ascii ''Content-Type'', ascii ''application/json'')], payload = None\<rparr>"

definition try_fetch :: "backend \<Rightarrow> jsstring \<Rightarrow> event list \<times> completion" where
  "try_fetch env name =
     (let req = city_request_fetch name in
      case fetch env req of
        Pending \<Rightarrow> ([Call req], Suspended)
      | Rejected err \<Rightarrow> ([Call req], Threw err)
      | Resolved (st, b) \<Rightarrow>
          if response_ok st then
            (case response_json b of
               Inl err \<Rightarrow> ([Call req], Threw err)
             | Inr data \<Rightarrow>
                 (case get_prop data (ascii ''facts'') of
                    Inl err \<Rightarrow> ([Call req], Threw err)
                  | Inr facts \<Rightarrow> ([Call req, SetCityFacts facts], Returned)))
          else ([Call req, SetError (JStr (ascii ''Something went wrong''))], Returned))"

definition handleSubmit_fetch :: "backend \<Rightarrow> app_state \<Rightarrow> event list \<times> bool" where
  "handleSubmit_fetch env s =
     (if \<not> truthy (JStr (js_trim (cityName s)))
      then ([SetError (JStr (ascii ''Please enter a city name''))], True)
      else
        (let (evs, ret) = catch_finally (try_fetch env (cityName s))
         in (SetIsLoading True # SetError (JStr []) # evs, ret)))"

subsection \<open>The axios version\<close>

definition city_request_axios :: "jsstring \<Rightarrow> request" where
  "city_request_axios name =
     \<lparr>meth = GET, url = ascii ''http://localhost:8000/city/'' @ name,
      headers = [], payload = None\<rparr>"

definition gemini_request :: "jsstring \<Rightarrow> request" where
  "gemini_request name =
     \<lparr>meth = GET, url = ascii ''http://localhost:8000/city/gemini/'' @ name,
      headers = [], payload = None\<rparr>"

definition save_request :: "jsstring \<Rightarrow> jsval \<Rightarrow> request" where
  "save_request name facts =
     \<lparr>meth = POST, url = ascii ''http://localhost:8000/city'', headers = [],
      payload = Some (JObj [(ascii ''name'', JStr name), (ascii ''facts'', facts)])\<rparr>"

text \<open>The \<^verbatim>\<open>else\<close> branch: generate, show, then save.\<close>

definition try_gemini :: "backend \<Rightarrow> jsstring \<Rightarrow> event list \<times> completion" where
  "try_gemini env name =
     (let greq = gemini_request name in
      case axios env greq of
        Pending \<Rightarrow> ([Call greq], Suspended)
      | Rejected err \<Rightarrow> ([Call greq], Threw err)
      | Resolved gdata \<Rightarrow>
          (case get_prop gdata (ascii ''facts'') of
             Inl err \<Rightarrow> ([Call greq], Threw err)
           | Inr gfacts \<Rightarrow>
               (let sreq = save_request name gfacts in
                case axios env sreq of
                  Pending \<Rightarrow> ([Call greq, SetCityFacts gfacts, Call sreq], Suspended)
                | Rejected err \<Rightarrow> ([Call greq, SetCityFacts gfacts, Call sreq], Threw err)
                | Resolved d \<Rightarrow> ([Call greq, SetCityFacts gfacts, Call sreq], Returned))))"

definition try_axios :: "backend \<Rightarrow> jsstring \<Rightarrow> event list \<times> completion" where
  "try_axios env name =
     (let req = city_request_axios name in
      case axios env req of
        Pending \<Rightarrow> ([Call req], Suspended)
      | Rejected err \<Rightarrow> ([Call req], Threw err)
      | Resolved data \<Rightarrow>
          (case get_prop data (ascii ''facts'') of
             Inl err \<Rightarrow> ([Call req], Threw err)
           | Inr facts \<Rightarrow>
               if truthy facts then ([Call req, SetCityFacts facts], Returned)
               else (let (evs, c) = try_gemini env name in (Call req # evs, c))))"

definition handleSubmit_axios :: "backend \<Rightarrow> app_state \<Rightarrow> event list \<times> bool" where
  "handleSubmit_axios env s =
     (if \<not> truthy (JStr (js_trim (cityName s)))
      then ([SetError (JStr (ascii ''Please enter a city name''))], True)
      else
        (let (evs, ret) = catch_finally (try_axios env (cityName s))
         in (SetIsLoading True # SetError (JStr []) # evs, ret)))"

subsection \<open>Either version, and the input field\<close>

datatype variant = SingleEndpoint | TwoStep

fun handleSubmit :: "variant \<Rightarrow> backend \<Rightarrow> app_state \<Rightarrow> event list \<times> bool" where
  "handleSubmit SingleEndpoint env s = handleSubmit_fetch env s"
| "handleSubmit TwoStep env s = handleSubmit_axios env s"

text \<open>The \<^verbatim>\<open>try\<close> block of either version.\<close>

fun try_block :: "variant \<Rightarrow> backend \<Rightarrow> jsstring \<Rightarrow> event list \<times> completion" where
  "try_block SingleEndpoint env name = try_fetch env name"
| "try_block TwoStep env name = try_axios env name"

text \<open>\<^verbatim>\<open>onChange={(e) => setCityName(e.target.value)}\<close>\<close>

definition onChange :: "jsstring \<Rightarrow> event list \<times> bool" where
  "onChange v = ([SetCityName v], True)"

datatype operation = Edit jsstring | Submit

fun perform :: "variant \<Rightarrow> backend \<Rightarrow> operation \<Rightarrow> app_state \<Rightarrow> event list \<times> bool" where
  "perform v env (Edit x) s = onChange x"
| "perform v env Submit s = handleSubmit v env s"


section \<open>What the component renders\<close>

datatype button_content = SpinnerSearching | GetCityFacts

datatype slot = Bare jsval | ErrorMessage jsval

datatype facts_content = FactLines "(nat \<times> jsstring) list" | PlaceholderText

record view =
  input_value :: jsstring
  input_disabled :: bool
  button_disabled :: bool
  button_label :: button_content
  error_slot :: slot
  facts_title :: jsstring
  facts_textarea :: facts_content

text \<open>
  \<^verbatim>\<open>cityFacts ? cityFacts.split("\n").map((line, i) => <p key={i}>{line}</p>) : <p>...</p>\<close>.
  Only a string has \<^verbatim>\<open>split\<close>: on any other truthy value the call throws.
\<close>

definition facts_area :: "jsval \<Rightarrow> js_error + facts_content" where
  "facts_area facts =
     (if truthy facts then
        (case facts of
           JStr f \<Rightarrow> Inr (FactLines (enumerate 0 (split_on newline f)))
         | _ \<Rightarrow> Inl TypeError)
      else Inr PlaceholderText)"

text \<open>
  What React accepts between the tags of an element: text, numbers, the values that render
  as nothing (booleans, \<^verbatim>\<open>null\<close>, \<^verbatim>\<open>undefined\<close>) and arrays of such children. For a
  plain object it throws "Objects are not valid as a React child".
\<close>

fun valid_child :: "jsval \<Rightarrow> bool" where
  "valid_child (JObj fs) = False"
| "valid_child (JArr vs) = list_all valid_child vs"
| "valid_child v = True"

text \<open>
  The JSX that \<^verbatim>\<open>App\<close> returns, rendered. The split of the facts throws while the function
  runs. \<^verbatim>\<open>{error && <div className="error-message">{error}</div>}\<close> puts \<open>error\<close> into
  the tree in both cases, as the child of the banner or by itself, and React throws on it
  when it is not a valid child. The component has no error boundary: a render that throws
  leaves nothing on the page.
\<close>

definition App :: "app_state \<Rightarrow> js_error + view" where
  "App s =
     (case facts_area (cityFacts s) of
        Inl err \<Rightarrow> Inl err
      | Inr area \<Rightarrow>
          if valid_child (error s) then
            Inr \<lparr>input_value = cityName s,
                 input_disabled = isLoading s,
                 button_disabled = isLoading s,
                 button_label = (if isLoading s then SpinnerSearching else GetCityFacts),
                 error_slot = (if truthy (error s) then ErrorMessage (error s)
                               else Bare (error s)),
                 facts_title = (if truthy (cityFacts s) then ascii ''About '' @ cityName s
                                else ascii ''City Facts Will Appear Here''),
                 facts_textarea = area\<rparr>
          else Inl InvalidChildError)"

section \<open>The form in the browser\<close>

text \<open>
  What a user can do with the rendered form. The browser gives a disabled input no text
  and no change event; it does not submit a form whose submit button is disabled, neither
  on a click nor on Enter in the field; and after a render that threw there is no form.
  Otherwise typing runs the change handler and submitting runs \<^verbatim>\<open>handleSubmit\<close>.
\<close>

datatype gesture = TypeText jsstring | PressSubmit

definition user_gesture :: "variant \<Rightarrow> backend \<Rightarrow> gesture \<Rightarrow> app_state \<Rightarrow> event list \<times> bool"
  where
  "user_gesture v env g s =
     (case App s of
        Inl err \<Rightarrow> ([], True)
      | Inr vw \<Rightarrow>
          (case g of
             TypeText x \<Rightarrow>
               if input_disabled vw then ([], True) else perform v env (Edit x) s
           | PressSubmit \<Rightarrow>
               if button_disabled vw then ([], True) else perform v env Submit s))"

section \<open>Concrete inputs\<close>

text \<open>States and backends at which the theorems below are instantiated.\<close>

definition paris_state :: app_state where
  "paris_state = initial_state\<lparr>cityName := ascii ''Paris''\<rparr>"

definition blank_state :: app_state where
  "blank_state = initial_state\<lparr>cityName := ascii ''   ''\<rparr>"

definition paris_facts :: jsstring where
  "paris_facts = ascii ''City of Light'' @ newline # ascii ''Famous for the Eiffel Tower''"

definition backend_status :: "nat \<Rightarrow> http_body \<Rightarrow> backend" where
  "backend_status st b req = Reply st b"

definition backend_paris :: backend where
  "backend_paris = backend_status 200 (Json (JObj [(ascii ''facts'', JStr paris_facts)]))"

definition backend_hung :: backend where
  "backend_hung req = Hung"








section \<open>Auxiliary facts\<close>

lemma js_trim_empty_iff: "js_trim s = [] \<longleftrightarrow> (\<forall>c\<in>set s. js_ws c)"
proof -
  have "js_trim s = [] \<longleftrightarrow> (\<forall>c\<in>set (dropWhile js_ws s). js_ws c)"
    by (simp add: js_trim_def)
  also have "\<dots> \<longleftrightarrow> dropWhile js_ws s = []"
  proof
    assume a: "\<forall>c\<in>set (dropWhile js_ws s). js_ws c"
    show "dropWhile js_ws s = []"
    proof (rule ccontr)
      assume n: "dropWhile js_ws s \<noteq> []"
      then have "\<not> js_ws (hd (dropWhile js_ws s))" by (rule hd_dropWhile)
      moreover from n have "hd (dropWhile js_ws s) \<in> set (dropWhile js_ws s)" by simp
      ultimately show False using a by blast
    qed
  next
    assume e: "dropWhile js_ws s = []"
    show "\<forall>c\<in>set (dropWhile js_ws s). js_ws c" unfolding e by simp
  qed
  also have "\<dots> \<longleftrightarrow> (\<forall>c\<in>set s. js_ws c)"
    by simp
  finally show ?thesis .
qed

lemma run_append: "run (xs @ ys) s = run ys (run xs s)"
  by (induction xs arbitrary: s) simp_all

lemma truthy_fallback: "truthy (js_or d (JStr (ascii ''Failed to fetch city facts'')))"
  by (simp add: js_or_def ascii_def)

subsection \<open>The shapes of a run\<close>

lemma try_fetch_cases:
  "try_fetch env name = (evs, c) \<Longrightarrow>
     (evs = [Call (city_request_fetch name)] \<and> (c = Suspended \<or> (\<exists>e. c = Threw e))) \<or>
     (\<exists>f. evs = [Call (city_request_fetch name), SetCityFacts f] \<and> c = Returned) \<or>
     (evs = [Call (city_request_fetch name), SetError (JStr (ascii ''Something went wrong''))]
        \<and> c = Returned)"
  by (auto simp: try_fetch_def Let_def split: promise.splits if_splits sum.splits prod.splits)

lemma try_gemini_cases:
  "try_gemini env name = (evs, c) \<Longrightarrow>
     (evs = [Call (gemini_request name)] \<and> (c = Suspended \<or> (\<exists>e. c = Threw e))) \<or>
     (\<exists>f. evs = [Call (gemini_request name), SetCityFacts f, Call (save_request name f)])"
  by (auto simp: try_gemini_def Let_def split: promise.splits if_splits sum.splits prod.splits)

lemma try_axios_cases:
  "try_axios env name = (evs, c) \<Longrightarrow>
     (evs = [Call (city_request_axios name)] \<and> (c = Suspended \<or> (\<exists>e. c = Threw e))) \<or>
     (\<exists>f. evs = [Call (city_request_axios name), SetCityFacts f] \<and> c = Returned) \<or>
     (evs = [Call (city_request_axios name), Call (gemini_request name)]
        \<and> (c = Suspended \<or> (\<exists>e. c = Threw e))) \<or>
     (\<exists>f. evs = [Call (city_request_axios name), Call (gemini_request name),
                  SetCityFacts f, Call (save_request name f)])"
  using try_gemini_cases[of env name]
  by (auto simp: try_axios_def Let_def split: promise.splits if_splits sum.splits prod.splits)

lemma try_block_cases:
  "try_block v env name = (evs, c) \<Longrightarrow>
     (\<exists>r. evs = [Call r] \<and> c \<noteq> Returned) \<or>
     (\<exists>r f. evs = [Call r, SetCityFacts f] \<and> c = Returned) \<or>
     (\<exists>r. evs = [Call r, SetError (JStr (ascii ''Something went wrong''))] \<and> c = Returned) \<or>
     (\<exists>r g. evs = [Call r, Call g] \<and> c \<noteq> Returned) \<or>
     (\<exists>r g f p. evs = [Call r, Call g, SetCityFacts f, Call p])"
  using try_fetch_cases [of env name evs c] try_axios_cases [of env name evs c]
  by (cases v) auto

lemma catch_finally_cases:
  "catch_finally (evs, c) = (rest, ret) \<Longrightarrow>
     (c = Returned \<and> rest = evs @ [SetIsLoading False] \<and> ret) \<or>
     (\<exists>e. truthy e \<and> (\<exists>err. c = Threw err) \<and> rest = evs @ [SetError e, SetIsLoading False] \<and> ret) \<or>
     (c = Suspended \<and> rest = evs \<and> \<not> ret)"
  by (cases c) (auto simp: catch_finally_def truthy_fallback)

lemma handleSubmit_blank:
  "js_trim (cityName s) = [] \<Longrightarrow>
     handleSubmit v env s = ([SetError (JStr (ascii ''Please enter a city name''))], True)"
  by (cases v) (simp_all add: handleSubmit_fetch_def handleSubmit_axios_def)

lemma handleSubmit_nonblank:
  "js_trim (cityName s) \<noteq> [] \<Longrightarrow>
     handleSubmit v env s =
       (SetIsLoading True # SetError (JStr []) # fst (catch_finally (try_block v env (cityName s))),
        snd (catch_finally (try_block v env (cityName s))))"
  by (cases v) (simp_all add: handleSubmit_fetch_def handleSubmit_axios_def split: prod.splits)

text \<open>Every run of a submit on a non-blank name.\<close>

lemma handleSubmit_decompose:
  assumes nb: "js_trim (cityName s) \<noteq> []" and h: "handleSubmit v env s = (tr, ret)"
  obtains evs c rest where "try_block v env (cityName s) = (evs, c)"
    and "catch_finally (evs, c) = (rest, ret)"
    and "tr = SetIsLoading True # SetError (JStr []) # rest"
proof -
  obtain evs c where t: "try_block v env (cityName s) = (evs, c)" by (cases "try_block v env (cityName s)")
  obtain rest r where cf: "catch_finally (evs, c) = (rest, r)" by (cases "catch_finally (evs, c)")
  from h nb t cf have "tr = SetIsLoading True # SetError (JStr []) # rest" "r = ret"
    by (simp_all add: handleSubmit_nonblank)
  with t cf that show thesis by blast
qed








text \<open>Where a run sets a message, and what it leaves in \<open>cityFacts\<close>.\<close>

lemma split_at_marked:
  assumes "xs @ y # ys = A @ [a, b]" and "P y" and "\<forall>x\<in>set A. \<not> P x" and "\<not> P b"
  shows "xs = A \<and> y = a \<and> ys = [b]"
  using assms
proof (induction A arbitrary: xs)
  case Nil
  then show ?case by (cases xs) (auto simp: append_eq_Cons_conv)
next
  case (Cons z A)
  then show ?case by (cases xs) auto
qed

lemma try_block_errors:
  "try_block v env name = (evs, c) \<Longrightarrow>
     (\<forall>x. SetError x \<notin> set evs) \<or>
     (c = Returned \<and> (\<exists>r. evs = [Call r, SetError (JStr (ascii ''Something went wrong''))]))"
  using try_block_cases [of v env name evs c] by auto

lemma handleSubmit_error_position:
  assumes nb: "js_trim (cityName s) \<noteq> []" and h: "handleSubmit v env s = (tr, ret)"
  shows "(\<forall>x. SetError x \<in> set tr \<longrightarrow> \<not> truthy x) \<or>
         (\<exists>A a. tr = SetIsLoading True # A @ [SetError a, SetIsLoading False]
                \<and> (\<forall>x. SetError x \<in> set A \<longrightarrow> \<not> truthy x) \<and> ret)"
proof -
  from nb h obtain evs c rest where t: "try_block v env (cityName s) = (evs, c)"
    and cf: "catch_finally (evs, c) = (rest, ret)"
    and tr: "tr = SetIsLoading True # SetError (JStr []) # rest"
    by (rule handleSubmit_decompose)
  from try_block_errors [OF t] show ?thesis
  proof
    assume none: "\<forall>x. SetError x \<notin> set evs"
    from catch_finally_cases [OF cf] show ?thesis
    proof (elim disjE exE conjE)
      assume "rest = evs @ [SetIsLoading False]"
      with tr none have "\<forall>x. SetError x \<in> set tr \<longrightarrow> \<not> truthy x" by auto
      then show ?thesis ..
    next
      fix e assume "rest = evs @ [SetError e, SetIsLoading False]" and ret
      with tr none
      have "tr = SetIsLoading True # (SetError (JStr []) # evs) @ [SetError e, SetIsLoading False]
            \<and> (\<forall>x. SetError x \<in> set (SetError (JStr []) # evs) \<longrightarrow> \<not> truthy x) \<and> ret"
        by auto
      then show ?thesis by blast
    next
      assume "rest = evs"
      with tr none have "\<forall>x. SetError x \<in> set tr \<longrightarrow> \<not> truthy x" by auto
      then show ?thesis ..
    qed
  next
    assume "c = Returned \<and> (\<exists>r. evs = [Call r, SetError (JStr (ascii ''Something went wrong''))])"
    then obtain r where c: "c = Returned"
      and evs: "evs = [Call r, SetError (JStr (ascii ''Something went wrong''))]" by blast
    from catch_finally_cases [OF cf] c have "rest = evs @ [SetIsLoading False]" and ret by auto
    with tr evs
    have "tr = SetIsLoading True # [SetError (JStr []), Call r]
                 @ [SetError (JStr (ascii ''Something went wrong'')), SetIsLoading False]
          \<and> (\<forall>x. SetError x \<in> set [SetError (JStr []), Call r] \<longrightarrow> \<not> truthy x) \<and> ret"
      by auto
    then show ?thesis by blast
  qed
qed

lemma handleSubmit_final_facts:
  assumes h: "handleSubmit v env s = (tr, ret)" and m: "SetCityFacts x \<in> set tr"
  shows "cityFacts (run tr s) = x"
proof (cases "js_trim (cityName s) = []")
  case True
  with h m show ?thesis by (auto simp: handleSubmit_blank)
next
  case False
  from False h obtain evs c rest where t: "try_block v env (cityName s) = (evs, c)"
    and cf: "catch_finally (evs, c) = (rest, ret)"
    and tr: "tr = SetIsLoading True # SetError (JStr []) # rest"
    by (rule handleSubmit_decompose)
  from catch_finally_cases [OF cf] obtain tail where rest: "rest = evs @ tail"
    and tail: "\<forall>y. SetCityFacts y \<notin> set tail"
    and frame: "\<And>u. cityFacts (run tail u) = cityFacts u"
    by (elim disjE exE conjE) (fastforce+)
  from m tr rest tail have mem: "SetCityFacts x \<in> set evs" by auto
  have "cityFacts (run evs u) = x" for u
    using try_block_cases [OF t] mem by auto
  then show ?thesis
    by (simp add: tr rest run_append frame)
qed

subsection \<open>Runs for given replies\<close>

lemma fetch_not_ok:
  assumes "js_trim (cityName s) \<noteq> []"
    and "env (city_request_fetch (cityName s)) = Reply st b" and "\<not> response_ok st"
  shows "handleSubmit_fetch env s =
           ([SetIsLoading True, SetError (JStr []), Call (city_request_fetch (cityName s)),
             SetError (JStr (ascii ''Something went wrong'')), SetIsLoading False], True)"
  using assms
  by (simp add: handleSubmit_fetch_def try_fetch_def fetch_def catch_finally_def)






text \<open>
  A body \<^verbatim>\<open>null\<close> is not an object without \<^verbatim>\<open>facts\<close>: the read of \<^verbatim>\<open>data.facts\<close>
  throws, and the fetch version reports a failure although the status was 2xx.
\<close>

lemma fetch_null_body:
  assumes "js_trim (cityName s) \<noteq> []"
    and "env (city_request_fetch (cityName s)) = Reply st (Json JNull)" and "response_ok st"
  shows "handleSubmit_fetch env s =
           ([SetIsLoading True, SetError (JStr []), Call (city_request_fetch (cityName s)),
             SetError (JStr (ascii ''Failed to fetch city facts'')), SetIsLoading False], True)"
  using assms
  by (simp add: handleSubmit_fetch_def try_fetch_def fetch_def catch_finally_def
      response_json_def js_or_def)

lemma ascii_Nil_iff: "ascii cs = [] \<longleftrightarrow> cs = []"
  by (simp add: ascii_def)

lemma fetch_hit:
  assumes "js_trim (cityName s) \<noteq> []"
    and "env (city_request_fetch (cityName s)) = Reply st (Json data)" and "response_ok st"
    and "get_prop data (ascii ''facts'') = Inr f"
  shows "handleSubmit_fetch env s =
           ([SetIsLoading True, SetError (JStr []), Call (city_request_fetch (cityName s)),
             SetCityFacts f, SetIsLoading False], True)"
  using assms
  by (simp add: handleSubmit_fetch_def try_fetch_def fetch_def catch_finally_def
      response_json_def)






text \<open>While a request is in flight the flag is set.\<close>

lemma isLoading_run_frame:
  "\<forall>b. SetIsLoading b \<notin> set p \<Longrightarrow> isLoading (run p s) = isLoading s"
proof (induction p arbitrary: s)
  case Nil
  show ?case by simp
next
  case (Cons e p)
  then show ?case by (cases e) auto
qed

lemma handleSubmit_shape:
  assumes nb: "js_trim (cityName s) \<noteq> []" and h: "handleSubmit v env s = (tr, ret)"
  shows "\<exists>mid fin. tr = (SetIsLoading True # mid) @ fin \<and> (\<forall>b. SetIsLoading b \<notin> set mid)
           \<and> (\<forall>r. Call r \<notin> set fin)"
proof -
  from nb h obtain evs c rest where t: "try_block v env (cityName s) = (evs, c)"
    and cf: "catch_finally (evs, c) = (rest, ret)"
    and tr: "tr = SetIsLoading True # SetError (JStr []) # rest"
    by (rule handleSubmit_decompose)
  have ne: "\<forall>b. SetIsLoading b \<notin> set evs"
    using try_block_cases [OF t] by auto
  from catch_finally_cases [OF cf]
  consider "rest = evs @ [SetIsLoading False]"
    | e where "rest = evs @ [SetError e, SetIsLoading False]"
    | "rest = evs"
    by auto
  then show ?thesis
  proof cases
    case 1
    with tr ne show ?thesis
      by (intro exI [of _ "SetError (JStr []) # evs"] exI [of _ "[SetIsLoading False]"]) simp
  next
    case 2
    with tr ne show ?thesis
      by (intro exI [of _ "SetError (JStr []) # evs @ [SetError e]"]
          exI [of _ "[SetIsLoading False]"]) simp
  next
    case 3
    with tr ne show ?thesis
      by (intro exI [of _ "SetError (JStr []) # evs"] exI [of _ "[]"]) simp
  qed
qed

lemma in_flight_loading:
  assumes nb: "js_trim (cityName s) \<noteq> []" and h: "handleSubmit v env s = (pre @ Call r # post, ret)"
  shows "isLoading (run (pre @ [Call r]) s)"
proof -
  from handleSubmit_shape [OF nb h] obtain mid fin
    where tr: "pre @ Call r # post = (SetIsLoading True # mid) @ fin"
      and mid: "\<forall>b. SetIsLoading b \<notin> set mid" and fin: "\<forall>r. Call r \<notin> set fin"
    by blast
  from tr [unfolded append_eq_append_conv2]
  obtain us where "(pre = (SetIsLoading True # mid) @ us \<and> us @ Call r # post = fin)
      \<or> (pre @ us = SetIsLoading True # mid \<and> Call r # post = us @ fin)"
    by blast
  then have "pre @ us = SetIsLoading True # mid \<and> Call r # post = us @ fin"
    using fin by auto
  then obtain p where p: "pre = SetIsLoading True # p" and "\<forall>b. SetIsLoading b \<notin> set p"
    using fin mid by (cases pre) (auto simp: Cons_eq_append_conv)
  then have "\<forall>b. SetIsLoading b \<notin> set (p @ [Call r])" by simp
  from isLoading_run_frame [OF this] show ?thesis
    unfolding p by simp
qed

subsection \<open>Splitting and joining\<close>





lemma split_on_line: "sep \<notin> set l \<Longrightarrow> split_on sep l = [l]"
  by (induction l) auto

lemma split_on_append: "sep \<notin> set l \<Longrightarrow> split_on sep (l @ sep # r) = l # split_on sep r"
  by (induction l) auto

text \<open>A split is the only list of separator-free lines that joins to the string.\<close>

lemma split_on_join:
  "ls \<noteq> [] \<Longrightarrow> \<forall>l\<in>set ls. sep \<notin> set l \<Longrightarrow> split_on sep (join_with sep ls) = ls"
proof (induction ls rule: join_with.induct)
  case (1 sep)
  then show ?case by simp
next
  case (2 sep l)
  then show ?case by (simp add: split_on_line)
next
  case (3 sep l v va)
  then show ?case by (simp add: split_on_append)
qed

subsection \<open>The concrete inputs\<close>

lemma paris_nonblank: "js_trim (cityName paris_state) \<noteq> []"
  by (simp add: paris_state_def js_trim_def js_ws_def ascii_def)





















lemma paris_null_run:
  "handleSubmit_fetch (backend_status 200 (Json JNull)) paris_state =
     ([SetIsLoading True, SetError (JStr []), Call (city_request_fetch (cityName paris_state)),
       SetError (JStr (ascii ''Failed to fetch city facts'')), SetIsLoading False], True)"
proof -
  have r: "backend_status 200 (Json JNull) (city_request_fetch (cityName paris_state))
      = Reply 200 (Json JNull)"
    by (simp add: backend_status_def)
  have ok: "response_ok 200" by (simp add: response_ok_def)
  show ?thesis
    using fetch_null_body [where env = "backend_status 200 (Json JNull)", OF paris_nonblank r ok] .
qed

lemma paris_hung_run:
  "handleSubmit TwoStep backend_hung paris_state
       = ([SetIsLoading True, SetError (JStr [])]
            @ Call (city_request_axios (ascii ''Paris'')) # [], False)"
  using paris_nonblank
  by (simp add: handleSubmit_axios_def try_axios_def axios_def catch_finally_def
      backend_hung_def paris_state_def initial_state_def)

section \<open>Validation\<close>

text \<open>
  C1. When the trimmed city name is empty, that is when the name is empty or consists of
  white space only (\<open>js_trim_empty_iff\<close>), a submit in either version calls
  \<^verbatim>\<open>setError("Please enter a city name")\<close> and nothing else: it issues no request and
  never calls \<^verbatim>\<open>setIsLoading\<close>, so \<open>isLoading\<close> keeps its value.
\<close>

theorem C1_blank_submit_rejected:
  assumes "js_trim (cityName s) = []"
  shows "handleSubmit v env s = ([SetError (JStr (ascii ''Please enter a city name''))], True)
       \<and> (\<forall>r. Call r \<notin> set (fst (handleSubmit v env s)))
       \<and> (\<forall>b. SetIsLoading b \<notin> set (fst (handleSubmit v env s)))
       \<and> run (fst (handleSubmit v env s)) s = s\<lparr>error := JStr (ascii ''Please enter a city name'')\<rparr>
       \<and> isLoading (run (fst (handleSubmit v env s)) s) = isLoading s"
  using assms by (simp add: handleSubmit_blank)

theorem C1_blank_submit_rejected_witness:
  "js_trim (cityName blank_state) = []
   \<and> handleSubmit SingleEndpoint backend_paris blank_state
       = ([SetError (JStr (ascii ''Please enter a city name''))], True)
   \<and> handleSubmit TwoStep backend_paris blank_state
       = ([SetError (JStr (ascii ''Please enter a city name''))], True)
   \<and> isLoading (run (fst (handleSubmit TwoStep backend_paris blank_state)) blank_state) = False"
proof -
  have b: "js_trim (cityName blank_state) = []"
    by (simp add: blank_state_def js_trim_def js_ws_def ascii_def)
  have l: "isLoading blank_state = False"
    by (simp add: blank_state_def initial_state_def)
  show ?thesis
    using b l C1_blank_submit_rejected [OF b, of SingleEndpoint backend_paris]
      C1_blank_submit_rejected [OF b, of TwoStep backend_paris]
    by simp
qed

section \<open>The loading flag\<close>



text \<open>
  C6. No operation sets a non-empty error together with the loading flag. An edit sets no
  error at all. In the run of a submit, a \<^verbatim>\<open>setError\<close> with a non-empty message is
  either the whole run, on the validation path where loading never starts, or it is
  directly followed by the closing \<^verbatim>\<open>setIsLoading(false)\<close>, after which the handler
  has returned with \<open>isLoading\<close> false.
\<close>

theorem C6_error_not_set_with_loading:
  assumes p: "perform v env op s = (tr, ret)" and d: "tr = pre @ SetError e # post" and e: "truthy e"
  shows "op = Submit \<and>
         ((js_trim (cityName s) = [] \<and> pre = [] \<and> post = [])
          \<or> (js_trim (cityName s) \<noteq> [] \<and> post = [SetIsLoading False] \<and> hd pre = SetIsLoading True
               \<and> ret \<and> \<not> isLoading (run tr s)))"
proof (cases op)
  case (Edit x)
  with p have "tr = [SetCityName x]" by (auto simp: onChange_def)
  with d show ?thesis by (auto simp: Cons_eq_append_conv)
next
  case Submit
  with p have h: "handleSubmit v env s = (tr, ret)" by simp
  show ?thesis
  proof (cases "js_trim (cityName s) = []")
    case True
    with h have "tr = [SetError (JStr (ascii ''Please enter a city name''))]"
      by (simp add: handleSubmit_blank)
    with d True Submit show ?thesis by (auto simp: Cons_eq_append_conv)
  next
    case False
    from d have mem: "SetError e \<in> set tr" by simp
    from handleSubmit_error_position [OF False h] mem e
    obtain A a where tr: "tr = (SetIsLoading True # A) @ [SetError a, SetIsLoading False]"
      and A: "\<forall>x. SetError x \<in> set A \<longrightarrow> \<not> truthy x" and r: ret
      by auto
    have "pre = SetIsLoading True # A \<and> SetError e = SetError a \<and> post = [SetIsLoading False]"
    proof (rule split_at_marked [where P = "\<lambda>ev. \<exists>x. ev = SetError x \<and> truthy x"])
      show "pre @ SetError e # post = (SetIsLoading True # A) @ [SetError a, SetIsLoading False]"
        using d tr by simp
      show "\<exists>x. SetError e = SetError x \<and> truthy x" using e by blast
      show "\<forall>x\<in>set (SetIsLoading True # A). \<not> (\<exists>xa. x = SetError xa \<and> truthy xa)"
        using A by auto
      show "\<not> (\<exists>x. SetIsLoading False = SetError x \<and> truthy x)" by simp
    qed
    moreover have "\<not> isLoading (run tr s)"
      unfolding tr by (simp only: run_append) simp
    ultimately show ?thesis using False Submit r by simp
  qed
qed

theorem C6_error_not_set_with_loading_witness:
  "perform SingleEndpoint (backend_status 500 (Json (JObj []))) Submit paris_state
     = ([SetIsLoading True, SetError (JStr []), Call (city_request_fetch (ascii ''Paris''))]
          @ SetError (JStr (ascii ''Something went wrong'')) # [SetIsLoading False], True)
   \<and> truthy (JStr (ascii ''Something went wrong''))
   \<and> js_trim (cityName paris_state) \<noteq> []
   \<and> \<not> isLoading (run ([SetIsLoading True, SetError (JStr []),
                          Call (city_request_fetch (ascii ''Paris''))]
          @ SetError (JStr (ascii ''Something went wrong'')) # [SetIsLoading False]) paris_state)"
proof -
  have r: "backend_status 500 (Json (JObj [])) (city_request_fetch (cityName paris_state))
       = Reply 500 (Json (JObj []))"
    by (simp add: backend_status_def)
  have n: "\<not> response_ok 500" by (simp add: response_ok_def)
  have c: "cityName paris_state = ascii ''Paris''"
    by (simp add: paris_state_def)
  have p: "perform SingleEndpoint (backend_status 500 (Json (JObj []))) Submit paris_state
     = ([SetIsLoading True, SetError (JStr []), Call (city_request_fetch (ascii ''Paris''))]
          @ SetError (JStr (ascii ''Something went wrong'')) # [SetIsLoading False], True)"
    using fetch_not_ok [where env = "backend_status 500 (Json (JObj []))", OF paris_nonblank r n]
    by (simp add: c)
  have t: "truthy (JStr (ascii ''Something went wrong''))" by (simp add: ascii_def)
  from C6_error_not_set_with_loading [OF p refl t] p t paris_nonblank show ?thesis by blast
qed

section \<open>Editing the input field\<close>

text \<open>
  C7. \<^verbatim>\<open>setCityName(value)\<close>, the whole of the input's change handler, replaces the
  pending city name and leaves the facts, the error message and the loading flag as they
  were.
\<close>

theorem C7_setCityName_frame:
  "perform v env (Edit x) s = ([SetCityName x], True)
   \<and> run (fst (onChange x)) s = s\<lparr>cityName := x\<rparr>
   \<and> cityName (run (fst (onChange x)) s) = x
   \<and> cityFacts (run (fst (onChange x)) s) = cityFacts s
   \<and> error (run (fst (onChange x)) s) = error s
   \<and> isLoading (run (fst (onChange x)) s) = isLoading s"
  by (simp add: onChange_def)

theorem C7_setCityName_frame_witness:
  "run (fst (onChange (ascii ''Rome''))) paris_state = paris_state\<lparr>cityName := ascii ''Rome''\<rparr>
   \<and> cityFacts (run (fst (onChange (ascii ''Rome''))) paris_state) = JStr []
   \<and> error (run (fst (onChange (ascii ''Rome''))) paris_state) = JStr []"
  using C7_setCityName_frame [of SingleEndpoint backend_hung "ascii ''Rome''" paris_state]
  by (simp add: paris_state_def initial_state_def)

section \<open>Rendering\<close>




text \<open>
  C8. Whenever \<open>isLoading\<close> is true, what the component renders has the text input
  disabled as well as the submit button, which shows the busy label, and no gesture of the
  user changes the state or issues a request: the name cannot be edited and no submit can
  start. The flag is true at every point of a submit at which a request is in flight.
\<close>

theorem C8_disabled_while_loading:
  "(isLoading s \<longrightarrow>
      (\<forall>vw. App s = Inr vw \<longrightarrow>
         input_disabled vw \<and> button_disabled vw \<and> button_label vw = SpinnerSearching)
      \<and> user_gesture v env g s = ([], True)
      \<and> run (fst (user_gesture v env g s)) s = s)
   \<and> (js_trim (cityName s0) \<noteq> [] \<and> handleSubmit v env s0 = (pre @ Call r # post, ret) \<longrightarrow>
        isLoading (run (pre @ [Call r]) s0)
      \<and> user_gesture v env' g (run (pre @ [Call r]) s0) = ([], True))"
proof -
  have a: "(\<forall>vw. App s = Inr vw \<longrightarrow>
         input_disabled vw \<and> button_disabled vw \<and> button_label vw = SpinnerSearching)
      \<and> user_gesture v env g s = ([], True)" if "isLoading s" for s env
    using that
    by (cases g) (auto simp: user_gesture_def App_def split: sum.splits if_splits)
  have b: "isLoading (run (pre @ [Call r]) s0)"
    if "js_trim (cityName s0) \<noteq> []" and "handleSubmit v env s0 = (pre @ Call r # post, ret)"
    using that by (rule in_flight_loading)
  show ?thesis
    using a b by simp
qed

theorem C8_disabled_while_loading_witness:
  "js_trim (cityName paris_state) \<noteq> []
   \<and> handleSubmit TwoStep backend_hung paris_state
       = ([SetIsLoading True, SetError (JStr [])]
            @ Call (city_request_axios (ascii ''Paris'')) # [], False)
   \<and> isLoading (run ([SetIsLoading True, SetError (JStr [])]
                       @ [Call (city_request_axios (ascii ''Paris''))]) paris_state)
   \<and> (\<exists>vw. App (run ([SetIsLoading True, SetError (JStr [])]
                       @ [Call (city_request_axios (ascii ''Paris''))]) paris_state) = Inr vw
          \<and> input_disabled vw \<and> button_disabled vw \<and> button_label vw = SpinnerSearching)
   \<and> user_gesture TwoStep backend_paris (TypeText (ascii ''Rome''))
        (run ([SetIsLoading True, SetError (JStr [])]
                @ [Call (city_request_axios (ascii ''Paris''))]) paris_state) = ([], True)
   \<and> user_gesture TwoStep backend_paris PressSubmit
        (run ([SetIsLoading True, SetError (JStr [])]
                @ [Call (city_request_axios (ascii ''Paris''))]) paris_state) = ([], True)
   \<and> user_gesture TwoStep backend_paris (TypeText (ascii ''Rome'')) paris_state
       = ([SetCityName (ascii ''Rome'')], True)"
proof -
  let ?s = "run ([SetIsLoading True, SetError (JStr [])]
                   @ [Call (city_request_axios (ascii ''Paris''))]) paris_state"
  note c = C8_disabled_while_loading [where s = ?s and ?s0.0 = paris_state and v = TwoStep
      and env = backend_hung and pre = "[SetIsLoading True, SetError (JStr [])]"
      and r = "city_request_axios (ascii ''Paris'')" and post = "[]" and ret = False
      and env' = backend_paris]
  from c paris_nonblank paris_hung_run have l: "isLoading ?s" by blast
  obtain vw where a: "App ?s = Inr vw"
    by (simp add: App_def facts_area_def paris_state_def initial_state_def)
  from C8_disabled_while_loading [where s = ?s and v = TwoStep and env = backend_paris
      and g = "TypeText (ascii ''Rome'')"] l a
  have d: "input_disabled vw \<and> button_disabled vw \<and> button_label vw = SpinnerSearching"
    and t: "user_gesture TwoStep backend_paris (TypeText (ascii ''Rome'')) ?s = ([], True)"
    by blast+
  from C8_disabled_while_loading [where s = ?s and v = TwoStep and env = backend_paris
      and g = PressSubmit] l
  have p: "user_gesture TwoStep backend_paris PressSubmit ?s = ([], True)"
    by blast
  have f: "user_gesture TwoStep backend_paris (TypeText (ascii ''Rome'')) paris_state
       = ([SetCityName (ascii ''Rome'')], True)"
    by (simp add: user_gesture_def App_def facts_area_def onChange_def paris_state_def
        initial_state_def)
  from a d have "\<exists>vw. App ?s = Inr vw
          \<and> input_disabled vw \<and> button_disabled vw \<and> button_label vw = SpinnerSearching"
    by blast
  with paris_nonblank paris_hung_run l t p f show ?thesis by blast
qed




section \<open>Replies of the backend\<close>

text \<open>
  C10. In the fetch version, take a 2xx reply with a JSON body. When the read of
  \<^verbatim>\<open>facts\<close> on the body gives \<^verbatim>\<open>undefined\<close> (no such field) or the empty string, which
  needs a body other than \<^verbatim>\<open>null\<close>, the submit ends with that value in \<open>cityFacts\<close>,
  no error message and the placeholder: the component renders exactly what it renders
  before any submit, with the same text in the input field. When the body is \<^verbatim>\<open>null\<close>
  the read throws, \<open>cityFacts\<close> is not assigned and the error is
  \<^verbatim>\<open>Failed to fetch city facts\<close>.
\<close>

theorem C10_missing_facts_silent:
  assumes nb: "js_trim (cityName s) \<noteq> []"
    and reply: "env (city_request_fetch (cityName s)) = Reply st (Json data)" and ok: "response_ok st"
  shows "(get_prop data (ascii ''facts'') = Inr facts \<and> (facts = JUndefined \<or> facts = JStr [])
            \<longrightarrow>
            handleSubmit_fetch env s =
              ([SetIsLoading True, SetError (JStr []), Call (city_request_fetch (cityName s)),
                SetCityFacts facts, SetIsLoading False], True)
          \<and> run (fst (handleSubmit_fetch env s)) s
              = s\<lparr>cityFacts := facts, isLoading := False, error := JStr []\<rparr>
          \<and> App (run (fst (handleSubmit_fetch env s)) s)
              = Inr \<lparr>input_value = cityName s, input_disabled = False, button_disabled = False,
                     button_label = GetCityFacts, error_slot = Bare (JStr []),
                     facts_title = ascii ''City Facts Will Appear Here'',
                     facts_textarea = PlaceholderText\<rparr>
          \<and> App (run (fst (handleSubmit_fetch env s)) s)
              = App (initial_state\<lparr>cityName := cityName s\<rparr>))
       \<and> (data = JNull \<longrightarrow>
            handleSubmit_fetch env s =
              ([SetIsLoading True, SetError (JStr []), Call (city_request_fetch (cityName s)),
                SetError (JStr (ascii ''Failed to fetch city facts'')), SetIsLoading False], True)
          \<and> run (fst (handleSubmit_fetch env s)) s
              = s\<lparr>isLoading := False, error := JStr (ascii ''Failed to fetch city facts'')\<rparr>
          \<and> App (run (fst (handleSubmit_fetch env s)) s)
              = (case facts_area (cityFacts s) of
                   Inl err \<Rightarrow> Inl err
                 | Inr area \<Rightarrow>
                     Inr \<lparr>input_value = cityName s, input_disabled = False,
                          button_disabled = False, button_label = GetCityFacts,
                          error_slot =
                            ErrorMessage (JStr (ascii ''Failed to fetch city facts'')),
                          facts_title = (if truthy (cityFacts s) then ascii ''About '' @ cityName s
                                         else ascii ''City Facts Will Appear Here''),
                          facts_textarea = area\<rparr>))
       \<and> ((\<exists>x. get_prop data (ascii ''facts'') = Inr x) \<longleftrightarrow> data \<noteq> JNull \<and> data \<noteq> JUndefined)"
proof (intro conjI impI)
  assume a: "get_prop data (ascii ''facts'') = Inr facts \<and> (facts = JUndefined \<or> facts = JStr [])"
  then have rd: "get_prop data (ascii ''facts'') = Inr facts" and f: "\<not> truthy facts" by auto
  note h = fetch_hit [where env = env, OF nb reply ok rd]
  show "handleSubmit_fetch env s =
              ([SetIsLoading True, SetError (JStr []), Call (city_request_fetch (cityName s)),
                SetCityFacts facts, SetIsLoading False], True)"
    by (rule h)
  show "run (fst (handleSubmit_fetch env s)) s
              = s\<lparr>cityFacts := facts, isLoading := False, error := JStr []\<rparr>"
    unfolding h by simp
  show "App (run (fst (handleSubmit_fetch env s)) s)
              = Inr \<lparr>input_value = cityName s, input_disabled = False, button_disabled = False,
                     button_label = GetCityFacts, error_slot = Bare (JStr []),
                     facts_title = ascii ''City Facts Will Appear Here'',
                     facts_textarea = PlaceholderText\<rparr>"
    unfolding h using f by (simp add: App_def facts_area_def)
  show "App (run (fst (handleSubmit_fetch env s)) s)
              = App (initial_state\<lparr>cityName := cityName s\<rparr>)"
    unfolding h using f by (simp add: App_def facts_area_def initial_state_def)
next
  assume d: "data = JNull"
  note h = fetch_null_body [where env = env, OF nb reply [unfolded d] ok]
  show "handleSubmit_fetch env s =
              ([SetIsLoading True, SetError (JStr []), Call (city_request_fetch (cityName s)),
                SetError (JStr (ascii ''Failed to fetch city facts'')), SetIsLoading False], True)"
    by (rule h)
  show "run (fst (handleSubmit_fetch env s)) s
              = s\<lparr>isLoading := False, error := JStr (ascii ''Failed to fetch city facts'')\<rparr>"
    unfolding h by simp
  show "App (run (fst (handleSubmit_fetch env s)) s)
              = (case facts_area (cityFacts s) of
                   Inl err \<Rightarrow> Inl err
                 | Inr area \<Rightarrow>
                     Inr \<lparr>input_value = cityName s, input_disabled = False,
                          button_disabled = False, button_label = GetCityFacts,
                          error_slot =
                            ErrorMessage (JStr (ascii ''Failed to fetch city facts'')),
                          facts_title = (if truthy (cityFacts s) then ascii ''About '' @ cityName s
                                         else ascii ''City Facts Will Appear Here''),
                          facts_textarea = area\<rparr>)"
    unfolding h by (simp add: App_def ascii_Nil_iff split: sum.splits)
next
  show "(\<exists>x. get_prop data (ascii ''facts'') = Inr x) \<longleftrightarrow> data \<noteq> JNull \<and> data \<noteq> JUndefined"
    by (cases data) auto
qed

theorem C10_missing_facts_silent_witness:
  "js_trim (cityName paris_state) \<noteq> []
   \<and> backend_status 200 (Json (JObj [])) (city_request_fetch (cityName paris_state))
       = Reply 200 (Json (JObj []))
   \<and> response_ok 200
   \<and> get_prop (JObj []) (ascii ''facts'') = Inr JUndefined
   \<and> handleSubmit_fetch (backend_status 200 (Json (JObj []))) paris_state =
           ([SetIsLoading True, SetError (JStr []), Call (city_request_fetch (cityName paris_state)),
             SetCityFacts JUndefined, SetIsLoading False], True)
   \<and> App (run (fst (handleSubmit_fetch (backend_status 200 (Json (JObj []))) paris_state))
            paris_state) = App (initial_state\<lparr>cityName := cityName paris_state\<rparr>)
   \<and> backend_status 200 (Json JNull) (city_request_fetch (cityName paris_state))
       = Reply 200 (Json JNull)
   \<and> run (fst (handleSubmit_fetch (backend_status 200 (Json JNull)) paris_state)) paris_state
       = paris_state\<lparr>isLoading := False, error := JStr (ascii ''Failed to fetch city facts'')\<rparr>"
proof -
  have r: "backend_status 200 (Json (JObj [])) (city_request_fetch (cityName paris_state))
       = Reply 200 (Json (JObj []))"
    by (simp add: backend_status_def)
  have r': "backend_status 200 (Json JNull) (city_request_fetch (cityName paris_state))
       = Reply 200 (Json JNull)"
    by (simp add: backend_status_def)
  have ok: "response_ok 200" by (simp add: response_ok_def)
  have rd: "get_prop (JObj []) (ascii ''facts'') = Inr JUndefined" by simp
  note c = C10_missing_facts_silent [where s = paris_state
      and env = "backend_status 200 (Json (JObj []))" and st = 200 and data = "JObj []"
      and facts = JUndefined, OF paris_nonblank r ok]
  note c' = C10_missing_facts_silent [where s = paris_state
      and env = "backend_status 200 (Json JNull)" and st = 200 and data = JNull,
      OF paris_nonblank r' ok]
  from c rd
  have a: "handleSubmit_fetch (backend_status 200 (Json (JObj []))) paris_state =
           ([SetIsLoading True, SetError (JStr []), Call (city_request_fetch (cityName paris_state)),
             SetCityFacts JUndefined, SetIsLoading False], True)"
    and b: "App (run (fst (handleSubmit_fetch (backend_status 200 (Json (JObj []))) paris_state))
            paris_state) = App (initial_state\<lparr>cityName := cityName paris_state\<rparr>)"
    by blast+
  from c'
  have d: "run (fst (handleSubmit_fetch (backend_status 200 (Json JNull)) paris_state)) paris_state
       = paris_state\<lparr>isLoading := False, error := JStr (ascii ''Failed to fetch city facts'')\<rparr>"
    by blast
  from paris_nonblank r ok rd a b r' d show ?thesis by blast
qed

text \<open>A 200 with the body \<^verbatim>\<open>null\<close>: an error message where the initial render has none.\<close>

theorem C10_counterexample:
  "backend_status 200 (Json JNull) (city_request_fetch (cityName paris_state))
     = Reply 200 (Json JNull)
   \<and> response_ok 200
   \<and> error (run (fst (handleSubmit_fetch (backend_status 200 (Json JNull)) paris_state))
        paris_state) = JStr (ascii ''Failed to fetch city facts'')
   \<and> App (run (fst (handleSubmit_fetch (backend_status 200 (Json JNull)) paris_state))
        paris_state) =
        Inr \<lparr>input_value = ascii ''Paris'', input_disabled = False, button_disabled = False,
             button_label = GetCityFacts,
             error_slot = ErrorMessage (JStr (ascii ''Failed to fetch city facts'')),
             facts_title = ascii ''City Facts Will Appear Here'',
             facts_textarea = PlaceholderText\<rparr>
   \<and> App (initial_state\<lparr>cityName := cityName paris_state\<rparr>) =
        Inr \<lparr>input_value = ascii ''Paris'', input_disabled = False, button_disabled = False,
             button_label = GetCityFacts, error_slot = Bare (JStr []),
             facts_title = ascii ''City Facts Will Appear Here'',
             facts_textarea = PlaceholderText\<rparr>"
proof -
  have r: "backend_status 200 (Json JNull) (city_request_fetch (cityName paris_state))
      = Reply 200 (Json JNull)"
    by (simp add: backend_status_def)
  have ok: "response_ok 200" by (simp add: response_ok_def)
  have e: "error (run (fst (handleSubmit_fetch (backend_status 200 (Json JNull)) paris_state))
        paris_state) = JStr (ascii ''Failed to fetch city facts'')"
    unfolding paris_null_run by simp
  have a: "App (run (fst (handleSubmit_fetch (backend_status 200 (Json JNull)) paris_state))
        paris_state) =
        Inr \<lparr>input_value = ascii ''Paris'', input_disabled = False, button_disabled = False,
             button_label = GetCityFacts,
             error_slot = ErrorMessage (JStr (ascii ''Failed to fetch city facts'')),
             facts_title = ascii ''City Facts Will Appear Here'',
             facts_textarea = PlaceholderText\<rparr>"
    unfolding paris_null_run
    by (simp add: App_def facts_area_def paris_state_def initial_state_def ascii_Nil_iff)
  have i: "App (initial_state\<lparr>cityName := cityName paris_state\<rparr>) =
        Inr \<lparr>input_value = ascii ''Paris'', input_disabled = False, button_disabled = False,
             button_label = GetCityFacts, error_slot = Bare (JStr []),
             facts_title = ascii ''City Facts Will Appear Here'',
             facts_textarea = PlaceholderText\<rparr>"
    by (simp add: App_def facts_area_def paris_state_def initial_state_def)
  from r ok e a i show ?thesis by blast
qed







end
